theory Spec2Isabelle
  imports Main "HOL-Library.Sublist"
begin

section \<open>The anonymous relay bot: values, effects and the network\<close>

text \<open>
  The two scripts \<^verbatim>\<open>telegram_bot_chertkovsky.py\<close> and
  \<^verbatim>\<open>telegram_bot_chertkovsky_filled.py\<close> share \<^verbatim>\<open>get_updates\<close>,
  \<^verbatim>\<open>send_message\<close>, \<^verbatim>\<open>build_forward_text\<close> and the body of the polling loop of
  \<^verbatim>\<open>main\<close>; they differ in how the configuration is obtained and checked.

  Python strings are modelled as \<open>string\<close>, read as the UTF-8 bytes of the text. The
  program only concatenates strings and tests them for emptiness, and both commute
  with the encoding.
\<close>

subsection \<open>Decoded JSON values\<close>

text \<open>
  A message is a \<^verbatim>\<open>Dict[str, Any]\<close>: any decoded JSON value can stand under a key.
  The payload of a Python float is the type parameter \<open>'f\<close>; dictionaries are
  association lists read with \<open>map_of\<close>.
\<close>

datatype 'f json =
    JNull
  | JBool bool
  | JInt int
  | JFloat 'f
  | JStr string
  | JList "'f json list"
  | JDict "(string \<times> 'f json) list"

type_synonym 'f pydict = "(string \<times> 'f json) list"

text \<open>
  Two built-ins of the language are not code of the repository and are parameters of the
  model: the truth value of a float and \<^verbatim>\<open>str()\<close> of an object that is not a
  \<^verbatim>\<open>str\<close>.
\<close>

record 'f python =
  float_bool :: "'f \<Rightarrow> bool"
  str_of :: "'f json \<Rightarrow> string"

text \<open>Truth value testing, as \<^verbatim>\<open>if x:\<close> and \<^verbatim>\<open>x or y\<close> perform it.\<close>

fun truthy :: "'f python \<Rightarrow> 'f json \<Rightarrow> bool" where
  "truthy py JNull = False"
| "truthy py (JBool b) = b"
| "truthy py (JInt n) = (n \<noteq> 0)"
| "truthy py (JFloat x) = float_bool py x"
| "truthy py (JStr s) = (s \<noteq> [])"
| "truthy py (JList xs) = (xs \<noteq> [])"
| "truthy py (JDict kv) = (kv \<noteq> [])"

text \<open>\<^verbatim>\<open>a or b\<close>: the first operand when it is truthy, the second otherwise.\<close>

definition py_or :: "'f python \<Rightarrow> 'f json \<Rightarrow> 'f json \<Rightarrow> 'f json" where
  "py_or py a b = (if truthy py a then a else b)"

text \<open>\<^verbatim>\<open>d.get(k)\<close>: the value under the key, \<^verbatim>\<open>None\<close> when the key is missing.\<close>

definition dget :: "'f pydict \<Rightarrow> string \<Rightarrow> 'f json" where
  "dget d k = (case map_of d k of None \<Rightarrow> JNull | Some v \<Rightarrow> v)"

text \<open>\<^verbatim>\<open>d.get(k, default)\<close>.\<close>

definition dget_default :: "'f pydict \<Rightarrow> string \<Rightarrow> 'f json \<Rightarrow> 'f json" where
  "dget_default d k dflt = (case map_of d k of None \<Rightarrow> dflt | Some v \<Rightarrow> v)"

text \<open>A replacement field \<^verbatim>\<open>{v}\<close> of an f-string: a \<^verbatim>\<open>str\<close> is inserted as it is.\<close>

definition fmt :: "'f python \<Rightarrow> 'f json \<Rightarrow> string" where
  "fmt py v = (case v of JStr s \<Rightarrow> s | _ \<Rightarrow> str_of py v)"

text \<open>\<^verbatim>\<open>"\n".join(parts)\<close>.\<close>

fun join_nl :: "string list \<Rightarrow> string" where
  "join_nl [] = []"
| "join_nl [p] = p"
| "join_nl (p # q # ps) = p @ [CHR 0x0A] @ join_nl (q # ps)"

subsection \<open>Exceptions\<close>

text \<open>
  Every constructor but \<open>KeyboardInterrupt\<close> is a subclass of \<^verbatim>\<open>Exception\<close>.
  \<open>HTTPError\<close> carries the status code of the response that
  \<^verbatim>\<open>raise_for_status\<close> rejected; \<open>RequestException\<close> is a transport failure
  (connection refused, timeout) with its message. An interrupt by the operator is
  modelled where the process waits for the network, not during \<^verbatim>\<open>time.sleep\<close>.
\<close>

datatype exn =
    HTTPError nat
  | RequestException string
  | JSONDecodeError
  | AttributeError
  | RuntimeError string
  | KeyboardInterrupt

definition is_Exception :: "exn \<Rightarrow> bool" where
  "is_Exception e = (e \<noteq> KeyboardInterrupt)"

subsection \<open>Updates, responses, effects\<close>

text \<open>
  One element of \<^verbatim>\<open>updates["result"]\<close>. The loop reads two keys of it:
  \<^verbatim>\<open>update_id\<close>, an integer by the annotation of \<^verbatim>\<open>offset\<close>, and
  \<^verbatim>\<open>message\<close>, a dictionary by its annotation. The fields are the two
  \<^verbatim>\<open>update.get\<close> calls; \<open>None\<close> is a missing key.
\<close>

record 'f update =
  get_update_id :: "int option"
  get_message :: "'f pydict option"

text \<open>The decoded body of a \<^verbatim>\<open>getUpdates\<close> response, with the two keys the loop reads.\<close>

record 'f updates =
  ok :: "'f json option"
  result :: "'f update list option"

text \<open>
  A \<^verbatim>\<open>requests.Response\<close>: the status code, the raw body (\<^verbatim>\<open>response.text\<close>) and
  what \<^verbatim>\<open>response.json()\<close> decodes it to (\<open>None\<close> when the body is not JSON).
\<close>

record 'f response =
  status_code :: nat
  body_text :: string
  body_json :: "'f updates option"

datatype 'f reply = Raises exn | Responds "'f response"

text \<open>
  The lines the scripts print. The fixed wording of a line is its constructor, the
  interpolated values are its arguments.
\<close>

datatype 'f log_line =
    Starting
  | FetchError exn
  | ApiError "'f updates"
  | SendFailed exn string
  | Stopped

text \<open>
  What the process does to the outside world, in order: \<open>Get url params timeout\<close> is
  \<^verbatim>\<open>requests.get\<close>, \<open>Post url data\<close> is \<^verbatim>\<open>requests.post\<close>, \<open>Sleep n\<close> is
  \<^verbatim>\<open>time.sleep(n)\<close>.
\<close>

datatype 'f effect =
    Get string "'f pydict" int
  | Post string "'f pydict"
  | Print "'f log_line"
  | Sleep nat

text \<open>
  The network answers a request as a function of everything the process has done so far,
  the request included.
\<close>

type_synonym 'f net = "'f effect list \<Rightarrow> 'f reply"

text \<open>\<^verbatim>\<open>response.raise_for_status()\<close> raises on the status codes 400 to 599.\<close>

definition raise_for_status :: "'f response \<Rightarrow> exn option" where
  "raise_for_status r =
     (if 400 \<le> status_code r \<and> status_code r < 600 then Some (HTTPError (status_code r))
      else None)"

record config =
  BOT_TOKEN :: string
  CHANNEL_ID :: string

definition API_URL :: "config \<Rightarrow> string" where
  "API_URL cfg = ''https://api.telegram.org/bot'' @ BOT_TOKEN cfg"

section \<open>The functions of the scripts\<close>

subsection \<open>\<^verbatim>\<open>get_updates\<close>\<close>

text \<open>
  \<^verbatim>\<open>if offset:\<close> tests the truth value of an \<^verbatim>\<open>int | None\<close>: both \<^verbatim>\<open>None\<close> and
  \<^verbatim>\<open>0\<close> are falsy.
\<close>

definition get_updates ::
  "'f net \<Rightarrow> config \<Rightarrow> int option \<Rightarrow> int \<Rightarrow> 'f effect list
     \<Rightarrow> 'f effect list \<times> (exn + 'f updates)" where
  "get_updates net cfg offset timeout tr =
     (let params = [(''timeout'', JInt timeout), (''allowed_updates'', JList [JStr ''message''])];
          params = (case offset of
                      None \<Rightarrow> params
                    | Some n \<Rightarrow> if n \<noteq> 0 then params @ [(''offset'', JInt n)] else params);
          tr1 = tr @ [Get (API_URL cfg @ ''/getUpdates'') params (timeout + 5)]
      in case net tr1 of
           Raises e \<Rightarrow> (tr1, Inl e)
         | Responds response \<Rightarrow>
             (case raise_for_status response of
                Some e \<Rightarrow> (tr1, Inl e)
              | None \<Rightarrow>
                  (case body_json response of
                     None \<Rightarrow> (tr1, Inl JSONDecodeError)
                   | Some u \<Rightarrow> (tr1, Inr u))))"

subsection \<open>\<^verbatim>\<open>send_message\<close>\<close>

text \<open>
  \<^verbatim>\<open>requests.post\<close> stands before the \<^verbatim>\<open>try\<close>: what it raises leaves
  \<^verbatim>\<open>send_message\<close>. Only \<^verbatim>\<open>raise_for_status\<close> is guarded.
\<close>

definition send_message ::
  "'f net \<Rightarrow> config \<Rightarrow> string \<Rightarrow> 'f effect list \<Rightarrow> 'f effect list \<times> (exn + unit)" where
  "send_message net cfg text tr =
     (let payload = [(''chat_id'', JStr (CHANNEL_ID cfg)), (''text'', JStr text),
                     (''parse_mode'', JStr ''HTML'')];
          tr1 = tr @ [Post (API_URL cfg @ ''/sendMessage'') payload]
      in case net tr1 of
           Raises e \<Rightarrow> (tr1, Inl e)
         | Responds response \<Rightarrow>
             (case raise_for_status response of
                Some exc \<Rightarrow> (tr1 @ [Print (SendFailed exc (body_text response))], Inr ())
              | None \<Rightarrow> (tr1, Inr ())))"

subsection \<open>\<^verbatim>\<open>build_forward_text\<close>\<close>

definition LABEL_MESSAGE :: string where
  "LABEL_MESSAGE = ''<b>'' @ [CHR 0xD0, CHR 0xA1, CHR 0xD0, CHR 0xBE, CHR 0xD0, CHR 0xBE,
     CHR 0xD0, CHR 0xB1, CHR 0xD1, CHR 0x89, CHR 0xD0, CHR 0xB5, CHR 0xD0, CHR 0xBD,
     CHR 0xD0, CHR 0xB8, CHR 0xD0, CHR 0xB5] @ '':</b> ''"

definition LABEL_LOCATION :: string where
  "LABEL_LOCATION = ''<b>'' @ [CHR 0xD0, CHR 0x9C, CHR 0xD0, CHR 0xB5, CHR 0xD1, CHR 0x81,
     CHR 0xD1, CHR 0x82, CHR 0xD0, CHR 0xBE, CHR 0xD0, CHR 0xBF, CHR 0xD0, CHR 0xBE,
     CHR 0xD0, CHR 0xBB, CHR 0xD0, CHR 0xBE, CHR 0xD0, CHR 0xB6, CHR 0xD0, CHR 0xB5,
     CHR 0xD0, CHR 0xBD, CHR 0xD0, CHR 0xB8, CHR 0xD0, CHR 0xB5] @ '':</b> ''"

definition EMPTY_MESSAGE :: string where
  "EMPTY_MESSAGE = ''('' @ [CHR 0xD0, CHR 0xBF, CHR 0xD1, CHR 0x83, CHR 0xD1, CHR 0x81,
     CHR 0xD1, CHR 0x82, CHR 0xD0, CHR 0xBE, CHR 0xD0, CHR 0xB5] @ '' '' @ [CHR 0xD1,
     CHR 0x81, CHR 0xD0, CHR 0xBE, CHR 0xD0, CHR 0xBE, CHR 0xD0, CHR 0xB1, CHR 0xD1,
     CHR 0x89, CHR 0xD0, CHR 0xB5, CHR 0xD0, CHR 0xBD, CHR 0xD0, CHR 0xB8, CHR 0xD0,
     CHR 0xB5] @ '')''"

text \<open>
  \<^verbatim>\<open>location.get\<close> on a truthy value that is not a dictionary raises
  \<^verbatim>\<open>AttributeError\<close>.
\<close>

definition build_forward_text :: "'f python \<Rightarrow> 'f pydict \<Rightarrow> exn + string" where
  "build_forward_text py message =
     (let parts = [];
          text = py_or py (dget message ''text'') (dget message ''caption'');
          parts = (if truthy py text then parts @ [LABEL_MESSAGE @ fmt py text] else parts);
          location = dget message ''location''
      in if truthy py location then
           (case location of
              JDict loc \<Rightarrow>
                (let lat = dget loc ''latitude'';
                     lon = dget loc ''longitude'';
                     parts = parts @ [LABEL_LOCATION @ fmt py lat @ '', '' @ fmt py lon]
                 in Inr (join_nl parts))
            | _ \<Rightarrow> Inl AttributeError)
         else Inr (join_nl (if parts = [] then [EMPTY_MESSAGE] else parts)))"

subsection \<open>The body of the polling loop\<close>

definition CONFIRMATION :: string where
  "CONFIRMATION = [CHR 0xD0, CHR 0xA1, CHR 0xD0, CHR 0xBF, CHR 0xD0, CHR 0xB0, CHR 0xD1,
     CHR 0x81, CHR 0xD0, CHR 0xB8, CHR 0xD0, CHR 0xB1, CHR 0xD0, CHR 0xBE] @ ''! '' @
     [CHR 0xD0, CHR 0x92, CHR 0xD0, CHR 0xB0, CHR 0xD1, CHR 0x88, CHR 0xD0, CHR 0xB5] @ '' '' @
     [CHR 0xD1, CHR 0x81, CHR 0xD0, CHR 0xBE, CHR 0xD0, CHR 0xBE, CHR 0xD0, CHR 0xB1, CHR 0xD1,
      CHR 0x89, CHR 0xD0, CHR 0xB5, CHR 0xD0, CHR 0xBD, CHR 0xD0, CHR 0xB8, CHR 0xD0, CHR 0xB5] @
     '' '' @
     [CHR 0xD0, CHR 0xBE, CHR 0xD1, CHR 0x82, CHR 0xD0, CHR 0xBF, CHR 0xD1, CHR 0x80, CHR 0xD0,
      CHR 0xB0, CHR 0xD0, CHR 0xB2, CHR 0xD0, CHR 0xBB, CHR 0xD0, CHR 0xB5, CHR 0xD0, CHR 0xBD,
      CHR 0xD0, CHR 0xBE] @ '' '' @
     [CHR 0xD0, CHR 0xB0, CHR 0xD0, CHR 0xBD, CHR 0xD0, CHR 0xBE, CHR 0xD0, CHR 0xBD, CHR 0xD0,
      CHR 0xB8, CHR 0xD0, CHR 0xBC, CHR 0xD0, CHR 0xBD, CHR 0xD0, CHR 0xBE] @ ''.''"

text \<open>
  The confirmation to the sender, the block of the loop body from
  \<^verbatim>\<open>chat_id = message.get("chat", {}).get("id")\<close> to the unguarded
  \<^verbatim>\<open>requests.post\<close>. The second \<^verbatim>\<open>.get\<close> raises \<^verbatim>\<open>AttributeError\<close> when
  \<^verbatim>\<open>chat\<close> is present and not a dictionary; the response of the post is dropped.
\<close>

definition send_confirmation ::
  "'f net \<Rightarrow> config \<Rightarrow> 'f pydict \<Rightarrow> 'f effect list \<Rightarrow> 'f effect list \<times> (exn + unit)" where
  "send_confirmation net cfg message tr =
     (case dget_default message ''chat'' (JDict []) of
        JDict chat \<Rightarrow>
          (let chat_id = dget chat ''id''
           in if chat_id \<noteq> JNull then
                (let confirm_payload = [(''chat_id'', chat_id), (''text'', JStr CONFIRMATION)];
                     tr1 = tr @ [Post (API_URL cfg @ ''/sendMessage'') confirm_payload]
                 in case net tr1 of
                      Raises e \<Rightarrow> (tr1, Inl e)
                    | Responds response \<Rightarrow> (tr1, Inr ()))
              else (tr, Inr ()))
      | _ \<Rightarrow> (tr, Inl AttributeError))"

text \<open>
  One pass of \<^verbatim>\<open>for update in updates.get("result", [])\<close>: from the cursor and the
  trace before the update to the trace after it and either the exception that left the
  loop or the new cursor.
\<close>

definition process_update ::
  "'f python \<Rightarrow> 'f net \<Rightarrow> config \<Rightarrow> int option \<Rightarrow> 'f update \<Rightarrow> 'f effect list
     \<Rightarrow> 'f effect list \<times> (exn + int option)" where
  "process_update py net cfg offset update tr =
     (let update_id = get_update_id update;
          message = (case get_message update of None \<Rightarrow> [] | Some m \<Rightarrow> m)
      in if message = [] then
           (tr, Inr (case update_id of Some n \<Rightarrow> Some (n + 1) | None \<Rightarrow> None))
         else
           (case build_forward_text py message of
              Inl e \<Rightarrow> (tr, Inl e)
            | Inr forward_text \<Rightarrow>
                (case send_message net cfg forward_text tr of
                   (tr1, Inl e) \<Rightarrow> (tr1, Inl e)
                 | (tr1, Inr _) \<Rightarrow>
                     (case send_confirmation net cfg message tr1 of
                        (tr2, Inl e) \<Rightarrow> (tr2, Inl e)
                      | (tr2, Inr _) \<Rightarrow>
                          (tr2, Inr (case update_id of
                                       Some n \<Rightarrow> Some (n + 1)
                                     | None \<Rightarrow> offset))))))"

fun process_updates ::
  "'f python \<Rightarrow> 'f net \<Rightarrow> config \<Rightarrow> int option \<Rightarrow> 'f update list \<Rightarrow> 'f effect list
     \<Rightarrow> 'f effect list \<times> (exn + int option)" where
  "process_updates py net cfg offset [] tr = (tr, Inr offset)"
| "process_updates py net cfg offset (update # rest) tr =
     (case process_update py net cfg offset update tr of
        (tr1, Inl e) \<Rightarrow> (tr1, Inl e)
      | (tr1, Inr offset1) \<Rightarrow> process_updates py net cfg offset1 rest tr1)"

text \<open>
  One pass of \<^verbatim>\<open>while True\<close>. \<^verbatim>\<open>except Exception\<close> around
  \<^verbatim>\<open>get_updates\<close> does not catch \<^verbatim>\<open>KeyboardInterrupt\<close>.
\<close>

definition main_iteration ::
  "'f python \<Rightarrow> 'f net \<Rightarrow> config \<Rightarrow> int option \<Rightarrow> 'f effect list
     \<Rightarrow> 'f effect list \<times> (exn + int option)" where
  "main_iteration py net cfg offset tr =
     (case get_updates net cfg offset 30 tr of
        (tr1, Inl exc) \<Rightarrow>
          if is_Exception exc then (tr1 @ [Print (FetchError exc), Sleep 5], Inr offset)
          else (tr1, Inl exc)
      | (tr1, Inr updates) \<Rightarrow>
          if truthy py (case ok updates of None \<Rightarrow> JBool False | Some v \<Rightarrow> v) then
            (case process_updates py net cfg offset
                    (case result updates of None \<Rightarrow> [] | Some us \<Rightarrow> us) tr1 of
               (tr2, Inl e) \<Rightarrow> (tr2, Inl e)
             | (tr2, Inr offset1) \<Rightarrow> (tr2 @ [Sleep 1], Inr offset1))
          else (tr1 @ [Print (ApiError updates), Sleep 5], Inr offset))"

text \<open>
  The loop never ends by itself. \<open>main_loop\<close> runs at most \<open>fuel\<close> passes: the
  result is the trace and \<open>Some e\<close> when the exception \<open>e\<close> left the loop,
  \<open>None\<close> when the loop is still running after \<open>fuel\<close> passes.
\<close>

fun main_loop ::
  "'f python \<Rightarrow> 'f net \<Rightarrow> config \<Rightarrow> nat \<Rightarrow> int option \<Rightarrow> 'f effect list
     \<Rightarrow> 'f effect list \<times> exn option" where
  "main_loop py net cfg 0 offset tr = (tr, None)"
| "main_loop py net cfg (Suc fuel) offset tr =
     (case main_iteration py net cfg offset tr of
        (tr1, Inl e) \<Rightarrow> (tr1, Some e)
      | (tr1, Inr offset1) \<Rightarrow> main_loop py net cfg fuel offset1 tr1)"

subsection \<open>\<^verbatim>\<open>main\<close> and the configuration\<close>

definition MSG_NO_BOT_TOKEN :: string where
  "MSG_NO_BOT_TOKEN = [CHR 0xD0, CHR 0x9D, CHR 0xD0, CHR 0xB5] @ '' '' @
     [CHR 0xD1, CHR 0x83, CHR 0xD0, CHR 0xBA, CHR 0xD0, CHR 0xB0, CHR 0xD0, CHR 0xB7, CHR 0xD0,
      CHR 0xB0, CHR 0xD0, CHR 0xBD] @ '' BOT_TOKEN. '' @
     [CHR 0xD0, CHR 0x97, CHR 0xD0, CHR 0xB0, CHR 0xD0, CHR 0xB4, CHR 0xD0, CHR 0xB0, CHR 0xD0,
      CHR 0xB9, CHR 0xD1, CHR 0x82, CHR 0xD0, CHR 0xB5] @ '' '' @
     [CHR 0xD0, CHR 0xBF, CHR 0xD0, CHR 0xB5, CHR 0xD1, CHR 0x80, CHR 0xD0, CHR 0xB5, CHR 0xD0,
      CHR 0xBC, CHR 0xD0, CHR 0xB5, CHR 0xD0, CHR 0xBD, CHR 0xD0, CHR 0xBD, CHR 0xD1, CHR 0x83,
      CHR 0xD1, CHR 0x8E] @ '' '' @
     [CHR 0xD0, CHR 0xBE, CHR 0xD0, CHR 0xBA, CHR 0xD1, CHR 0x80, CHR 0xD1, CHR 0x83, CHR 0xD0,
      CHR 0xB6, CHR 0xD0, CHR 0xB5, CHR 0xD0, CHR 0xBD, CHR 0xD0, CHR 0xB8, CHR 0xD1, CHR 0x8F] @
     '' BOT_TOKEN '' @ [CHR 0xD0, CHR 0xB8, CHR 0xD0, CHR 0xBB, CHR 0xD0, CHR 0xB8] @ '' '' @
     [CHR 0xD0, CHR 0xBF, CHR 0xD1, CHR 0x80, CHR 0xD0, CHR 0xBE, CHR 0xD0, CHR 0xBF, CHR 0xD0,
      CHR 0xB8, CHR 0xD1, CHR 0x88, CHR 0xD0, CHR 0xB8, CHR 0xD1, CHR 0x82, CHR 0xD0, CHR 0xB5] @
     '' '' @ [CHR 0xD0, CHR 0xB5, CHR 0xD1, CHR 0x91] @ '' '' @ [CHR 0xD0, CHR 0xB2] @ '' '' @
     [CHR 0xD0, CHR 0xBA, CHR 0xD0, CHR 0xBE, CHR 0xD0, CHR 0xB4, CHR 0xD0, CHR 0xB5] @ ''.''"

definition MSG_NO_CHANNEL_ID :: string where
  "MSG_NO_CHANNEL_ID = [CHR 0xD0, CHR 0x9D, CHR 0xD0, CHR 0xB5] @ '' '' @
     [CHR 0xD1, CHR 0x83, CHR 0xD0, CHR 0xBA, CHR 0xD0, CHR 0xB0, CHR 0xD0, CHR 0xB7, CHR 0xD0,
      CHR 0xB0, CHR 0xD0, CHR 0xBD] @ '' CHANNEL_ID. '' @
     [CHR 0xD0, CHR 0x97, CHR 0xD0, CHR 0xB0, CHR 0xD0, CHR 0xB4, CHR 0xD0, CHR 0xB0, CHR 0xD0,
      CHR 0xB9, CHR 0xD1, CHR 0x82, CHR 0xD0, CHR 0xB5] @ '' '' @
     [CHR 0xD0, CHR 0xBF, CHR 0xD0, CHR 0xB5, CHR 0xD1, CHR 0x80, CHR 0xD0, CHR 0xB5, CHR 0xD0,
      CHR 0xBC, CHR 0xD0, CHR 0xB5, CHR 0xD0, CHR 0xBD, CHR 0xD0, CHR 0xBD, CHR 0xD1, CHR 0x83,
      CHR 0xD1, CHR 0x8E] @ '' '' @
     [CHR 0xD0, CHR 0xBE, CHR 0xD0, CHR 0xBA, CHR 0xD1, CHR 0x80, CHR 0xD1, CHR 0x83, CHR 0xD0,
      CHR 0xB6, CHR 0xD0, CHR 0xB5, CHR 0xD0, CHR 0xBD, CHR 0xD0, CHR 0xB8, CHR 0xD1, CHR 0x8F] @
     '' CHANNEL_ID '' @ [CHR 0xD0, CHR 0xB8, CHR 0xD0, CHR 0xBB, CHR 0xD0, CHR 0xB8] @ '' '' @
     [CHR 0xD0, CHR 0xBF, CHR 0xD1, CHR 0x80, CHR 0xD0, CHR 0xBE, CHR 0xD0, CHR 0xBF, CHR 0xD0,
      CHR 0xB8, CHR 0xD1, CHR 0x88, CHR 0xD0, CHR 0xB8, CHR 0xD1, CHR 0x82, CHR 0xD0, CHR 0xB5] @
     '' '' @ [CHR 0xD0, CHR 0xB5, CHR 0xD1, CHR 0x91] @ '' '' @ [CHR 0xD0, CHR 0xB2] @ '' '' @
     [CHR 0xD0, CHR 0xBA, CHR 0xD0, CHR 0xBE, CHR 0xD0, CHR 0xB4, CHR 0xD0, CHR 0xB5] @ ''.''"

text \<open>
  The module level of \<^verbatim>\<open>telegram_bot_chertkovsky.py\<close>:
  \<^verbatim>\<open>os.environ.get(name, default)\<close> on the environment, a map from names to values.
\<close>

definition load_config :: "(string \<rightharpoonup> string) \<Rightarrow> config" where
  "load_config env =
     \<lparr>BOT_TOKEN = (case env ''BOT_TOKEN'' of None \<Rightarrow> ''YOUR_BOT_TOKEN_HERE'' | Some v \<Rightarrow> v),
      CHANNEL_ID = (case env ''CHANNEL_ID'' of None \<Rightarrow> ''YOUR_CHANNEL_ID_HERE'' | Some v \<Rightarrow> v)\<rparr>"

text \<open>
  \<^verbatim>\<open>main\<close> of \<^verbatim>\<open>telegram_bot_chertkovsky.py\<close>, on the configuration the module
  level loaded. \<^verbatim>\<open>not BOT_TOKEN\<close> is the test for the empty string.
\<close>

definition main ::
  "'f python \<Rightarrow> 'f net \<Rightarrow> config \<Rightarrow> nat \<Rightarrow> 'f effect list \<times> exn option" where
  "main py net cfg fuel =
     (if BOT_TOKEN cfg = [] \<or> BOT_TOKEN cfg = ''YOUR_BOT_TOKEN_HERE'' then
        ([], Some (RuntimeError MSG_NO_BOT_TOKEN))
      else if CHANNEL_ID cfg = [] \<or> CHANNEL_ID cfg = ''YOUR_CHANNEL_ID_HERE'' then
        ([], Some (RuntimeError MSG_NO_CHANNEL_ID))
      else main_loop py net cfg fuel None [Print Starting])"

text \<open>
  \<^verbatim>\<open>main\<close> of \<^verbatim>\<open>telegram_bot_chertkovsky_filled.py\<close>: the two constants are
  written in the file (here the parameter \<open>cfg\<close>) and nothing is checked.
\<close>

definition main_filled ::
  "'f python \<Rightarrow> 'f net \<Rightarrow> config \<Rightarrow> nat \<Rightarrow> 'f effect list \<times> exn option" where
  "main_filled py net cfg fuel = main_loop py net cfg fuel None [Print Starting]"

text \<open>
  The \<^verbatim>\<open>__main__\<close> block: \<^verbatim>\<open>KeyboardInterrupt\<close> ends the process with a notice,
  every other exception leaves the process uncaught.
\<close>

datatype outcome = Running | Exited | Crashed exn

definition script ::
  "'f python \<Rightarrow> 'f net \<Rightarrow> (string \<rightharpoonup> string) \<Rightarrow> nat \<Rightarrow> 'f effect list \<times> outcome" where
  "script py net env fuel =
     (case main py net (load_config env) fuel of
        (tr, Some e) \<Rightarrow>
          if e = KeyboardInterrupt then (tr @ [Print Stopped], Exited) else (tr, Crashed e)
      | (tr, None) \<Rightarrow> (tr, Running))"

section \<open>Vocabulary of the properties\<close>

text \<open>
  The request \<^verbatim>\<open>send_message\<close> posts for a text, and the request that confirms the
  receipt to a chat.
\<close>

definition publish_request :: "config \<Rightarrow> string \<Rightarrow> 'f effect" where
  "publish_request cfg text =
     Post (API_URL cfg @ ''/sendMessage'')
       [(''chat_id'', JStr (CHANNEL_ID cfg)), (''text'', JStr text), (''parse_mode'', JStr ''HTML'')]"


text \<open>The request \<^verbatim>\<open>get_updates\<close> sends for a cursor that is forwarded or omitted.\<close>

definition fetch_request :: "config \<Rightarrow> int option \<Rightarrow> int \<Rightarrow> 'f effect" where
  "fetch_request cfg forwarded timeout =
     Get (API_URL cfg @ ''/getUpdates'')
       ([(''timeout'', JInt timeout), (''allowed_updates'', JList [JStr ''message''])]
        @ (case forwarded of None \<Rightarrow> [] | Some n \<Rightarrow> [(''offset'', JInt n)]))
       (timeout + 5)"

fun is_post :: "'f effect \<Rightarrow> bool" where
  "is_post (Post url data) = True"
| "is_post _ = False"

text \<open>A publication to the channel is the post that carries \<^verbatim>\<open>parse_mode\<close>.\<close>

fun is_publish :: "'f effect \<Rightarrow> bool" where
  "is_publish (Post url data) = (map_of data ''parse_mode'' = Some (JStr ''HTML''))"
| "is_publish _ = False"

text \<open>
  A location as the data model has it: missing, or an object. (A truthy value of another
  type makes \<^verbatim>\<open>location.get\<close> raise.)
\<close>

definition is_location :: "'f json \<Rightarrow> bool" where
  "is_location v = (case v of JNull \<Rightarrow> True | JDict loc \<Rightarrow> True | _ \<Rightarrow> False)"


subsection \<open>Instances for the examples\<close>

text \<open>
  In the examples a float is written as the text \<^verbatim>\<open>str()\<close> gives for it, and the
  network answers every request in the same way.
\<close>

definition sample_python :: "string python" where
  "sample_python =
     \<lparr>float_bool = (\<lambda>s. s \<noteq> ''0.0'' \<and> s \<noteq> ''-0.0''),
      str_of = (\<lambda>v. case v of JFloat s \<Rightarrow> s | JNull \<Rightarrow> ''None'' | _ \<Rightarrow> ''object'')\<rparr>"

definition sample_config :: config where
  "sample_config = \<lparr>BOT_TOKEN = ''123:ABC'', CHANNEL_ID = ''@my_channel''\<rparr>"

definition net_status :: "nat \<Rightarrow> string net" where
  "net_status code = (\<lambda>tr. Responds \<lparr>status_code = code, body_text = ''body'', body_json = None\<rparr>)"

definition net_down :: "string net" where
  "net_down = (\<lambda>tr. Raises (RequestException ''connection refused''))"

definition net_not_ok :: "string net" where
  "net_not_ok =
     (\<lambda>tr. Responds \<lparr>status_code = 200, body_text = ''body'',
                       body_json = Some \<lparr>ok = Some (JBool False), result = None\<rparr>\<rparr>)"

section \<open>Properties\<close>

subsection \<open>The published text\<close>

lemma fmt_JStr: "fmt py (JStr s) = s"
  by (simp add: fmt_def)

lemma bft_chosen_prefix:
  assumes loc: "is_location (dget message ''location'')"
    and chosen: "py_or py (dget message ''text'') (dget message ''caption'') = JStr c" "c \<noteq> []"
  shows "\<exists>rest. build_forward_text py message = Inr (LABEL_MESSAGE @ c @ rest)"
proof (cases "dget message ''location''")
  case JNull
  with chosen show ?thesis
    by (simp add: build_forward_text_def fmt_def Let_def)
next
  case (JDict loc)
  show ?thesis
  proof (cases "loc = []")
    case True
    with JDict chosen show ?thesis
      by (simp add: build_forward_text_def fmt_def Let_def)
  next
    case False
    with JDict chosen show ?thesis
      by (simp add: build_forward_text_def fmt_def Let_def)
  qed
qed (use loc in \<open>simp_all add: is_location_def\<close>)

lemma bft_caption_as_text:
  assumes "map_of message ''text'' = None" "map_of message ''caption'' = None"
  shows "build_forward_text py ((''caption'', v) # message) = build_forward_text py ((''text'', v) # message)"
  using assms
  by (simp add: build_forward_text_def py_or_def dget_def Let_def)

lemma bft_empty:
  assumes "dget message ''text'' = JNull" "dget message ''caption'' = JNull" "dget message ''location'' = JNull"
  shows "build_forward_text py message = Inr EMPTY_MESSAGE"
  using assms by (simp add: build_forward_text_def py_or_def Let_def)

lemma send_message_trace:
  "\<exists>log. fst (send_message net cfg text tr) = tr @ publish_request cfg text # log"
  by (simp add: send_message_def publish_request_def Let_def split: reply.split option.split)

lemma send_confirmation_trace:
  "\<exists>ext. fst (send_confirmation net cfg message tr) = tr @ ext"
  by (simp add: send_confirmation_def Let_def split: json.split reply.split)

lemma process_update_publishes:
  assumes "get_message update = Some message" "message \<noteq> []"
    and "build_forward_text py message = Inr forward_text"
  shows "\<exists>rest. fst (process_update py net cfg offset update tr)
            = tr @ publish_request cfg forward_text # rest"
proof -
  obtain log where l: "fst (send_message net cfg forward_text tr) = tr @ publish_request cfg forward_text # log"
    using send_message_trace by blast
  obtain tr1 res where sm: "send_message net cfg forward_text tr = (tr1, res)"
    by (cases "send_message net cfg forward_text tr")
  with l have tr1: "tr1 = tr @ publish_request cfg forward_text # log" by simp
  show ?thesis
  proof (cases res)
    case (Inl e)
    with assms sm tr1 show ?thesis by (simp add: process_update_def)
  next
    case (Inr u)
    obtain ext where "fst (send_confirmation net cfg message tr1) = tr1 @ ext"
      using send_confirmation_trace by blast
    moreover obtain tr2 res2 where "send_confirmation net cfg message tr1 = (tr2, res2)"
      by (cases "send_confirmation net cfg message tr1")
    ultimately show ?thesis
      using assms sm tr1 Inr by (cases res2) (simp_all add: process_update_def)
  qed
qed

text \<open>
  C2, as the code has it. \<^verbatim>\<open>build_forward_text\<close> prefers \<^verbatim>\<open>text\<close> and falls back
  to \<^verbatim>\<open>caption\<close> when \<^verbatim>\<open>text\<close> is missing or the empty string; whenever the
  chosen one is a non-empty string the result begins with the bold label followed by that
  string; and a message with \<^verbatim>\<open>caption = v\<close> and no \<^verbatim>\<open>text\<close> gives the same
  result as the message with \<^verbatim>\<open>text = v\<close> and no \<^verbatim>\<open>caption\<close>. The location is
  missing or an object.
\<close>

theorem caption_fallback:
  assumes "is_location (dget m1 ''location'')" "is_location (dget m2 ''location'')"
  shows "(dget m1 ''text'' = JStr t \<and> t \<noteq> [] \<longrightarrow>
            (\<exists>rest. build_forward_text py m1 = Inr (LABEL_MESSAGE @ t @ rest)))
       \<and> ((dget m2 ''text'' = JNull \<or> dget m2 ''text'' = JStr [])
            \<and> dget m2 ''caption'' = JStr c \<and> c \<noteq> [] \<longrightarrow>
            (\<exists>rest. build_forward_text py m2 = Inr (LABEL_MESSAGE @ c @ rest)))
       \<and> (map_of m3 ''text'' = None \<and> map_of m3 ''caption'' = None \<longrightarrow>
            build_forward_text py ((''caption'', v) # m3)
              = build_forward_text py ((''text'', v) # m3))"
proof (intro conjI impI)
  assume "dget m1 ''text'' = JStr t \<and> t \<noteq> []"
  then show "\<exists>rest. build_forward_text py m1 = Inr (LABEL_MESSAGE @ t @ rest)"
    using assms(1) by (intro bft_chosen_prefix) (simp_all add: py_or_def)
next
  assume h: "(dget m2 ''text'' = JNull \<or> dget m2 ''text'' = JStr [])
             \<and> dget m2 ''caption'' = JStr c \<and> c \<noteq> []"
  then have "py_or py (dget m2 ''text'') (dget m2 ''caption'') = JStr c"
    by (elim conjE disjE) (simp_all add: py_or_def)
  with h assms(2) show "\<exists>rest. build_forward_text py m2 = Inr (LABEL_MESSAGE @ c @ rest)"
    by (intro bft_chosen_prefix) simp_all
next
  assume "map_of m3 ''text'' = None \<and> map_of m3 ''caption'' = None"
  then show "build_forward_text py ((''caption'', v) # m3)
              = build_forward_text py ((''text'', v) # m3)"
    by (simp add: bft_caption_as_text)
qed

theorem caption_fallback_witness:
  "is_location (dget [(''text'', JStr ''T''), (''caption'', JStr ''C'')] ''location'' :: string json)
   \<and> (\<exists>rest. build_forward_text sample_python [(''text'', JStr ''T''), (''caption'', JStr ''C'')]
                 = Inr (LABEL_MESSAGE @ ''T'' @ rest))
   \<and> (\<exists>rest. build_forward_text sample_python [(''caption'', JStr ''C'')]
                 = Inr (LABEL_MESSAGE @ ''C'' @ rest))
   \<and> build_forward_text sample_python [(''caption'', JStr ''C''), (''location'', JNull)]
       = build_forward_text sample_python [(''text'', JStr ''C''), (''location'', JNull)]"
  using caption_fallback [of "[(''text'', JStr ''T''), (''caption'', JStr ''C'')]"
      "[(''caption'', JStr ''C'')]" "''T''" sample_python "''C''" "[(''location'', JNull)]" "JStr ''C''"]
  by (simp add: is_location_def dget_def)

text \<open>
  C2 as stated fails for a \<^verbatim>\<open>text\<close> that is present and empty: the caption is used
  although the text is there, and with no caption the result does not begin with the label.
\<close>

theorem empty_text_not_preferred:
  "build_forward_text sample_python [(''text'', JStr ''''), (''caption'', JStr ''C'')]
     = Inr (LABEL_MESSAGE @ ''C'')
   \<and> build_forward_text sample_python [(''text'', JStr '''')] = Inr EMPTY_MESSAGE
   \<and> \<not> prefix LABEL_MESSAGE EMPTY_MESSAGE"
  by (simp add: build_forward_text_def py_or_def dget_def fmt_def Let_def
        LABEL_MESSAGE_def EMPTY_MESSAGE_def)

text \<open>
  C8, as the code has it. For a message with a non-empty \<^verbatim>\<open>text\<close> and a location with
  latitude and longitude, the result is the text block, one newline, and the location
  block; each coordinate is passed as it is to the string conversion of the language.
\<close>

theorem text_then_location:
  assumes "dget message ''text'' = JStr t" "t \<noteq> []"
    and "dget message ''location'' = JDict loc"
    and "map_of loc ''latitude'' = Some lat" "map_of loc ''longitude'' = Some lon"
  shows "build_forward_text py message =
     Inr (LABEL_MESSAGE @ t @ [CHR 0x0A] @ LABEL_LOCATION @ fmt py lat @ '', '' @ fmt py lon)"
proof -
  from assms(4) have "loc \<noteq> []" by auto
  with assms show ?thesis
    by (simp add: build_forward_text_def py_or_def dget_def Let_def fmt_JStr)
qed

theorem text_then_location_witness:
  "build_forward_text sample_python
     [(''text'', JStr ''T''),
      (''location'', JDict [(''latitude'', JFloat ''1.0''), (''longitude'', JFloat ''2.0'')])]
   = Inr (LABEL_MESSAGE @ ''T'' @ [CHR 0x0A] @ LABEL_LOCATION @ ''1.0, 2.0'')"
  using text_then_location [of
      "[(''text'', JStr ''T''),
        (''location'', JDict [(''latitude'', JFloat ''1.0''), (''longitude'', JFloat ''2.0'')])]"
      "''T''" "[(''latitude'', JFloat ''1.0''), (''longitude'', JFloat ''2.0'')]"
      "JFloat ''1.0''" "JFloat ''2.0''" sample_python]
  by (simp add: dget_def fmt_def sample_python_def)

text \<open>
  C8 as stated fails for a \<^verbatim>\<open>text\<close> that is present and empty: the result is the
  location block alone, with no text block and no newline before it.
\<close>

theorem empty_text_drops_text_block:
  "build_forward_text sample_python
     [(''text'', JStr ''''),
      (''location'', JDict [(''latitude'', JFloat ''1.0''), (''longitude'', JFloat ''2.0'')])]
   = Inr (LABEL_LOCATION @ ''1.0, 2.0'')
   \<and> LABEL_LOCATION @ ''1.0, 2.0''
       \<noteq> LABEL_MESSAGE @ '''' @ [CHR 0x0A] @ LABEL_LOCATION @ ''1.0, 2.0''"
  by (simp add: build_forward_text_def py_or_def dget_def fmt_def Let_def sample_python_def
        LABEL_MESSAGE_def LABEL_LOCATION_def)

text \<open>
  C3, as the code has it. For a message with no \<^verbatim>\<open>text\<close>, no \<^verbatim>\<open>caption\<close> and no
  \<^verbatim>\<open>location\<close>, \<^verbatim>\<open>build_forward_text\<close> returns the placeholder, which is not the
  empty string; and when the message is not the empty object the loop posts the
  placeholder to the channel.
\<close>

theorem placeholder_published:
  assumes "dget message ''text'' = JNull" "dget message ''caption'' = JNull"
    and "dget message ''location'' = JNull"
  shows "build_forward_text py message = Inr EMPTY_MESSAGE \<and> EMPTY_MESSAGE \<noteq> []
       \<and> (message \<noteq> [] \<longrightarrow>
            (\<exists>rest. fst (process_update py net cfg offset
                            \<lparr>get_update_id = uid, get_message = Some message\<rparr> tr)
                      = tr @ publish_request cfg EMPTY_MESSAGE # rest))"
proof -
  have e: "build_forward_text py message = Inr EMPTY_MESSAGE"
    using assms by (rule bft_empty)
  moreover have "EMPTY_MESSAGE \<noteq> []" by (simp add: EMPTY_MESSAGE_def)
  moreover have "message \<noteq> [] \<longrightarrow>
            (\<exists>rest. fst (process_update py net cfg offset
                            \<lparr>get_update_id = uid, get_message = Some message\<rparr> tr)
                      = tr @ publish_request cfg EMPTY_MESSAGE # rest)"
    using e by (auto intro: process_update_publishes)
  ultimately show ?thesis by blast
qed

theorem placeholder_published_witness:
  "build_forward_text sample_python [(''chat'', JDict [(''id'', JInt 999)])] = Inr EMPTY_MESSAGE
   \<and> EMPTY_MESSAGE \<noteq> []
   \<and> (\<exists>rest. fst (process_update sample_python (net_status 200) sample_config None
                     \<lparr>get_update_id = Some 5,
                      get_message = Some [(''chat'', JDict [(''id'', JInt 999)])]\<rparr> [])
               = [] @ publish_request sample_config EMPTY_MESSAGE # rest)"
  using placeholder_published [of "[(''chat'', JDict [(''id'', JInt 999)])]" sample_python
      "net_status 200" sample_config None "Some 5" "[]"]
  by (simp add: dget_def)

text \<open>
  C3 as stated fails for the update whose \<^verbatim>\<open>message\<close> is the empty object: it has no
  text, no caption and no location, and the loop moves the cursor past it without a
  single request.
\<close>

theorem empty_message_dropped:
  "process_update sample_python (net_status 200) sample_config (Some 5)
     \<lparr>get_update_id = Some 5, get_message = Some []\<rparr> [] = ([], Inr (Some 6))"
  by (simp add: process_update_def)

subsection \<open>Fetching\<close>

lemma get_updates_trace:
  "fst (get_updates net cfg offset timeout tr) =
     tr @ [fetch_request cfg (case offset of None \<Rightarrow> None
                              | Some n \<Rightarrow> if n \<noteq> 0 then Some n else None) timeout]"
  by (simp add: get_updates_def fetch_request_def Let_def
        split: option.split reply.split)

text \<open>
  C9. A call of \<^verbatim>\<open>get_updates\<close> with the cursor \<^verbatim>\<open>0\<close> is the call with no cursor:
  the same request, without the \<^verbatim>\<open>offset\<close> parameter, and the same result. Only a
  cursor that is neither \<^verbatim>\<open>None\<close> nor \<^verbatim>\<open>0\<close> is forwarded as the offset.
\<close>

theorem zero_offset_omitted:
  "get_updates net cfg (Some 0) timeout tr = get_updates net cfg None timeout tr
   \<and> fst (get_updates net cfg None timeout tr) = tr @ [fetch_request cfg None timeout]
   \<and> (n \<noteq> 0 \<longrightarrow>
        fst (get_updates net cfg (Some n) timeout tr) = tr @ [fetch_request cfg (Some n) timeout])"
proof (intro conjI impI)
  show "get_updates net cfg (Some 0) timeout tr = get_updates net cfg None timeout tr"
    by (simp add: get_updates_def)
  show "fst (get_updates net cfg None timeout tr) = tr @ [fetch_request cfg None timeout]"
    by (simp add: get_updates_trace)
  assume "n \<noteq> 0"
  then show "fst (get_updates net cfg (Some n) timeout tr)
              = tr @ [fetch_request cfg (Some n) timeout]"
    by (simp add: get_updates_trace)
qed

theorem zero_offset_omitted_witness:
  "get_updates (net_status 200) sample_config (Some 0) 30 []
     = get_updates (net_status 200) sample_config None 30 []
   \<and> fst (get_updates (net_status 200) sample_config None 30 [])
       = [Get ''https://api.telegram.org/bot123:ABC/getUpdates''
            [(''timeout'', JInt 30), (''allowed_updates'', JList [JStr ''message''])] 35]
   \<and> (7::int) \<noteq> 0
   \<and> fst (get_updates (net_status 200) sample_config (Some 7) 30 [])
       = [Get ''https://api.telegram.org/bot123:ABC/getUpdates''
            [(''timeout'', JInt 30), (''allowed_updates'', JList [JStr ''message'']),
             (''offset'', JInt 7)] 35]"
  using zero_offset_omitted [of "net_status 200" sample_config 30 "[]" 7]
  by (simp add: fetch_request_def API_URL_def sample_config_def)

lemma fetch_is_not_post: "\<not> is_post (fetch_request cfg forwarded timeout)"
  by (simp add: fetch_request_def)

text \<open>
  C6. When the fetch returns a body whose \<^verbatim>\<open>ok\<close> is false, the pass of the loop logs
  the body and sleeps 5 seconds: it posts nothing (no publication, no confirmation), it
  leaves the cursor as it was, and the loop goes on from there.
\<close>

theorem not_ok_skips_batch:
  assumes "get_updates net cfg offset 30 tr = (tr1, Inr updates)"
    and "ok updates = Some (JBool False)"
  shows "main_iteration py net cfg offset tr
           = (tr1 @ [Print (ApiError updates), Sleep 5], Inr offset)
       \<and> filter is_post (tr1 @ [Print (ApiError updates), Sleep 5]) = filter is_post tr
       \<and> main_loop py net cfg (Suc fuel) offset tr
           = main_loop py net cfg fuel offset (tr1 @ [Print (ApiError updates), Sleep 5])"
proof -
  have it: "main_iteration py net cfg offset tr
              = (tr1 @ [Print (ApiError updates), Sleep 5], Inr offset)"
    using assms by (simp add: main_iteration_def)
  have "fst (get_updates net cfg offset 30 tr) = tr1" using assms(1) by simp
  then have "filter is_post tr1 = filter is_post tr"
    unfolding get_updates_trace by (auto simp add: fetch_is_not_post)
  with it show ?thesis by simp
qed

theorem not_ok_skips_batch_witness:
  "main_iteration sample_python net_not_ok sample_config (Some 7) []
     = ([fetch_request sample_config (Some 7) 30,
         Print (ApiError \<lparr>ok = Some (JBool False), result = None\<rparr>), Sleep 5], Inr (Some 7))
   \<and> filter is_post [fetch_request sample_config (Some 7) 30,
         Print (ApiError \<lparr>ok = Some (JBool False), result = None\<rparr>), Sleep 5] = []"
  using not_ok_skips_batch [of net_not_ok sample_config "Some 7" "[]"
      "[fetch_request sample_config (Some 7) 30]" "\<lparr>ok = Some (JBool False), result = None\<rparr>"
      sample_python 0]
  by (simp add: get_updates_def fetch_request_def net_not_ok_def raise_for_status_def)

text \<open>
  Every step of the loop only adds to the trace, and a pass of the loop begins with the
  fetch for its cursor.
\<close>

lemma process_update_extends:
  "\<exists>ext. fst (process_update py net cfg offset update tr) = tr @ ext"
proof (cases "get_message update")
  case None
  then show ?thesis by (simp add: process_update_def)
next
  case (Some message)
  show ?thesis
  proof (cases "message = []")
    case True
    with Some show ?thesis by (simp add: process_update_def)
  next
    case False
    show ?thesis
    proof (cases "build_forward_text py message")
      case (Inl e)
      with Some False show ?thesis by (simp add: process_update_def)
    next
      case (Inr forward_text)
      with Some False obtain rest where
        "fst (process_update py net cfg offset update tr)
           = tr @ publish_request cfg forward_text # rest"
        using process_update_publishes by blast
      then show ?thesis by blast
    qed
  qed
qed

lemma process_updates_extends:
  "\<exists>ext. fst (process_updates py net cfg offset us tr) = tr @ ext"
proof (induction us arbitrary: offset tr)
  case Nil
  show ?case by simp
next
  case (Cons u us)
  obtain ext where e: "fst (process_update py net cfg offset u tr) = tr @ ext"
    using process_update_extends by blast
  obtain tr1 res where pu: "process_update py net cfg offset u tr = (tr1, res)"
    by (cases "process_update py net cfg offset u tr")
  with e have tr1: "tr1 = tr @ ext" by simp
  show ?case
  proof (cases res)
    case (Inl x)
    with pu tr1 show ?thesis by simp
  next
    case (Inr offset1)
    obtain ext2 where "fst (process_updates py net cfg offset1 us tr1) = tr1 @ ext2"
      using Cons.IH by blast
    with pu tr1 Inr show ?thesis by simp
  qed
qed

lemma main_iteration_trace:
  "\<exists>rest. fst (main_iteration py net cfg offset tr)
     = tr @ fetch_request cfg (case offset of None \<Rightarrow> None
                               | Some n \<Rightarrow> if n \<noteq> 0 then Some n else None) 30 # rest"
proof -
  let ?req = "fetch_request cfg (case offset of None \<Rightarrow> None
                               | Some n \<Rightarrow> if n \<noteq> 0 then Some n else None) 30"
  obtain tr1 res where gu: "get_updates net cfg offset 30 tr = (tr1, res)"
    by (cases "get_updates net cfg offset 30 tr")
  then have "fst (get_updates net cfg offset 30 tr) = tr1" by simp
  then have tr1: "tr1 = tr @ [?req]" unfolding get_updates_trace by simp
  show ?thesis
  proof (cases res)
    case (Inl exc)
    with gu tr1 show ?thesis by (simp add: main_iteration_def)
  next
    case (Inr updates)
    obtain ext where ext: "fst (process_updates py net cfg offset
        (case result updates of None \<Rightarrow> [] | Some us \<Rightarrow> us) tr1) = tr1 @ ext"
      using process_updates_extends by blast
    obtain tr2 res2 where pu: "process_updates py net cfg offset
        (case result updates of None \<Rightarrow> [] | Some us \<Rightarrow> us) tr1 = (tr2, res2)"
      by (cases "process_updates py net cfg offset
        (case result updates of None \<Rightarrow> [] | Some us \<Rightarrow> us) tr1")
    with ext have "tr2 = tr1 @ ext" by simp
    with gu tr1 Inr pu show ?thesis
      by (cases res2) (simp_all add: main_iteration_def)
  qed
qed

lemma main_loop_extends:
  "\<exists>ext. fst (main_loop py net cfg fuel offset tr) = tr @ ext"
proof (induction fuel arbitrary: offset tr)
  case 0
  show ?case by simp
next
  case (Suc fuel)
  obtain rest where r: "fst (main_iteration py net cfg offset tr)
     = tr @ fetch_request cfg (case offset of None \<Rightarrow> None
                               | Some n \<Rightarrow> if n \<noteq> 0 then Some n else None) 30 # rest"
    using main_iteration_trace by blast
  obtain tr1 res where mi: "main_iteration py net cfg offset tr = (tr1, res)"
    by (cases "main_iteration py net cfg offset tr")
  show ?case
  proof (cases res)
    case (Inl e)
    with mi r show ?thesis by simp
  next
    case (Inr offset1)
    obtain ext where "fst (main_loop py net cfg fuel offset1 tr1) = tr1 @ ext"
      using Suc.IH by blast
    with mi r Inr show ?thesis by simp
  qed
qed

lemma get_updates_transport_error:
  assumes "net (tr @ [fetch_request cfg (case offset of None \<Rightarrow> None
                               | Some n \<Rightarrow> if n \<noteq> 0 then Some n else None) timeout]) = Raises e"
  shows "get_updates net cfg offset timeout tr
     = (tr @ [fetch_request cfg (case offset of None \<Rightarrow> None
                               | Some n \<Rightarrow> if n \<noteq> 0 then Some n else None) timeout], Inl e)"
  using assms
  by (auto simp add: get_updates_def fetch_request_def Let_def split: option.splits)

lemma get_updates_status_error:
  assumes "net (tr @ [fetch_request cfg (case offset of None \<Rightarrow> None
                               | Some n \<Rightarrow> if n \<noteq> 0 then Some n else None) timeout]) = Responds r"
    and "400 \<le> status_code r" "status_code r < 600"
  shows "get_updates net cfg offset timeout tr
     = (tr @ [fetch_request cfg (case offset of None \<Rightarrow> None
                               | Some n \<Rightarrow> if n \<noteq> 0 then Some n else None) timeout],
        Inl (HTTPError (status_code r)))"
  using assms
  by (auto simp add: get_updates_def fetch_request_def Let_def raise_for_status_def
        split: option.splits)

lemma get_updates_body_error:
  assumes "net (tr @ [fetch_request cfg (case offset of None \<Rightarrow> None
                               | Some n \<Rightarrow> if n \<noteq> 0 then Some n else None) timeout]) = Responds r"
    and "status_code r < 400 \<or> 600 \<le> status_code r" "body_json r = None"
  shows "get_updates net cfg offset timeout tr
     = (tr @ [fetch_request cfg (case offset of None \<Rightarrow> None
                               | Some n \<Rightarrow> if n \<noteq> 0 then Some n else None) timeout],
        Inl JSONDecodeError)"
  using assms
  by (auto simp add: get_updates_def fetch_request_def Let_def raise_for_status_def
        split: option.splits)

lemma caught_fetch_error:
  assumes gu: "get_updates net cfg offset 30 tr = (tr @ [req], Inl e)" and ex: "is_Exception e"
    and req: "req = fetch_request cfg (case offset of None \<Rightarrow> None
                               | Some n \<Rightarrow> if n \<noteq> 0 then Some n else None) 30"
  shows "main_iteration py net cfg offset tr
           = (tr @ [req, Print (FetchError e), Sleep 5], Inr offset)"
    and "\<exists>rest. fst (main_iteration py net cfg offset (tr @ [req, Print (FetchError e), Sleep 5]))
           = tr @ [req, Print (FetchError e), Sleep 5, req] @ rest"
    and "\<exists>rest. fst (main_loop py net cfg (Suc (Suc fuel)) offset tr)
           = tr @ [req, Print (FetchError e), Sleep 5, req] @ rest"
proof -
  let ?tr' = "tr @ [req, Print (FetchError e), Sleep 5]"
  show it: "main_iteration py net cfg offset tr = (?tr', Inr offset)"
    using gu ex by (simp add: main_iteration_def)
  obtain rest where r: "fst (main_iteration py net cfg offset ?tr') = ?tr' @ req # rest"
    using main_iteration_trace [of py net cfg offset ?tr'] req by auto
  then show "\<exists>rest. fst (main_iteration py net cfg offset ?tr')
           = tr @ [req, Print (FetchError e), Sleep 5, req] @ rest"
    by simp
  obtain tr2 res where mi: "main_iteration py net cfg offset ?tr' = (tr2, res)"
    by (cases "main_iteration py net cfg offset ?tr'")
  with r have tr2: "tr2 = ?tr' @ req # rest" by simp
  show "\<exists>rest. fst (main_loop py net cfg (Suc (Suc fuel)) offset tr)
           = tr @ [req, Print (FetchError e), Sleep 5, req] @ rest"
  proof (cases res)
    case (Inl x)
    with it mi tr2 show ?thesis by simp
  next
    case (Inr offset1)
    obtain ext where "fst (main_loop py net cfg fuel offset1 tr2) = tr2 @ ext"
      using main_loop_extends by blast
    with it mi tr2 Inr show ?thesis by simp
  qed
qed

text \<open>
  C5, as the code has it. On a network or server error, that is when the request raises,
  when the response has a status from 400 to 599, or when its body is not JSON,
  \<^verbatim>\<open>get_updates\<close> raises to its caller. The loop of \<^verbatim>\<open>main\<close> catches the
  \<^verbatim>\<open>Exception\<close>, logs it, sleeps 5 seconds and goes on with the cursor unchanged:
  the next pass of the loop sends the same request again.
\<close>

theorem fetch_error_retried:
  assumes req: "req = fetch_request cfg (case offset of None \<Rightarrow> None
                               | Some n \<Rightarrow> if n \<noteq> 0 then Some n else None) 30"
    and fail: "(net (tr @ [req]) = Raises e \<and> is_Exception e)
       \<or> (net (tr @ [req]) = Responds r \<and> 400 \<le> status_code r \<and> status_code r < 600
            \<and> e = HTTPError (status_code r))
       \<or> (net (tr @ [req]) = Responds r \<and> (status_code r < 400 \<or> 600 \<le> status_code r)
            \<and> body_json r = None \<and> e = JSONDecodeError)"
  shows "get_updates net cfg offset 30 tr = (tr @ [req], Inl e)
       \<and> main_iteration py net cfg offset tr
           = (tr @ [req, Print (FetchError e), Sleep 5], Inr offset)
       \<and> (\<exists>rest. fst (main_iteration py net cfg offset
                         (tr @ [req, Print (FetchError e), Sleep 5]))
                   = tr @ [req, Print (FetchError e), Sleep 5, req] @ rest)
       \<and> (\<exists>rest. fst (main_loop py net cfg (Suc (Suc fuel)) offset tr)
                   = tr @ [req, Print (FetchError e), Sleep 5, req] @ rest)"
proof -
  from fail have gu: "get_updates net cfg offset 30 tr = (tr @ [req], Inl e)"
  proof (elim disjE)
    assume "net (tr @ [req]) = Raises e \<and> is_Exception e"
    then show ?thesis unfolding req by (simp add: get_updates_transport_error)
  next
    assume "net (tr @ [req]) = Responds r \<and> 400 \<le> status_code r \<and> status_code r < 600
            \<and> e = HTTPError (status_code r)"
    then show ?thesis unfolding req by (simp add: get_updates_status_error)
  next
    assume "net (tr @ [req]) = Responds r \<and> (status_code r < 400 \<or> 600 \<le> status_code r)
            \<and> body_json r = None \<and> e = JSONDecodeError"
    then show ?thesis unfolding req by (simp add: get_updates_body_error)
  qed
  from fail have ex: "is_Exception e" by (auto simp add: is_Exception_def)
  from caught_fetch_error [OF gu ex req] gu show ?thesis by blast
qed

theorem fetch_error_retried_witness:
  "is_Exception (RequestException ''connection refused'')
   \<and> get_updates net_down sample_config (Some 7) 30 []
       = ([fetch_request sample_config (Some 7) 30], Inl (RequestException ''connection refused''))
   \<and> main_iteration sample_python net_down sample_config (Some 7) []
       = ([fetch_request sample_config (Some 7) 30,
           Print (FetchError (RequestException ''connection refused'')), Sleep 5], Inr (Some 7))
   \<and> (\<exists>rest. fst (main_loop sample_python net_down sample_config (Suc (Suc 0)) (Some 7) [])
         = [fetch_request sample_config (Some 7) 30,
            Print (FetchError (RequestException ''connection refused'')), Sleep 5,
            fetch_request sample_config (Some 7) 30] @ rest)
   \<and> get_updates (net_status 502) sample_config (Some 7) 30 []
       = ([fetch_request sample_config (Some 7) 30], Inl (HTTPError 502))
   \<and> main_iteration sample_python (net_status 502) sample_config (Some 7) []
       = ([fetch_request sample_config (Some 7) 30, Print (FetchError (HTTPError 502)), Sleep 5],
          Inr (Some 7))
   \<and> main_iteration sample_python (net_status 200) sample_config (Some 7) []
       = ([fetch_request sample_config (Some 7) 30, Print (FetchError JSONDecodeError), Sleep 5],
          Inr (Some 7))"
  using fetch_error_retried [where net = net_down and cfg = sample_config and offset = "Some 7"
      and tr = "[]" and req = "fetch_request sample_config (Some 7) 30"
      and e = "RequestException ''connection refused''" and py = sample_python and fuel = 0]
    fetch_error_retried [where net = "net_status 502" and cfg = sample_config
      and offset = "Some 7" and tr = "[]" and req = "fetch_request sample_config (Some 7) 30"
      and e = "HTTPError 502"
      and r = "\<lparr>status_code = 502, body_text = ''body'', body_json = None\<rparr>"
      and py = sample_python and fuel = 0]
    fetch_error_retried [where net = "net_status 200" and cfg = sample_config
      and offset = "Some 7" and tr = "[]" and req = "fetch_request sample_config (Some 7) 30"
      and e = JSONDecodeError
      and r = "\<lparr>status_code = 200, body_text = ''body'', body_json = None\<rparr>"
      and py = sample_python and fuel = 0]
  by (simp add: is_Exception_def net_down_def net_status_def del: main_loop.simps)

text \<open>
  C5 as stated fails in its first part: on a refused connection and on a status 502
  \<^verbatim>\<open>get_updates\<close> raises to its caller.
\<close>

theorem get_updates_raises:
  "snd (get_updates net_down sample_config (Some 7) 30 [])
     = Inl (RequestException ''connection refused'')
   \<and> snd (get_updates (net_status 502) sample_config (Some 7) 30 []) = Inl (HTTPError 502)"
  by (simp add: get_updates_def net_down_def net_status_def raise_for_status_def)

subsection \<open>Publishing and confirming\<close>

lemma publish_is_publish: "is_publish (publish_request cfg text)"
  by (simp add: publish_request_def)

lemma send_message_failure:
  assumes "net (tr @ [publish_request cfg text]) = Responds r"
    and "400 \<le> status_code r" "status_code r < 600"
  shows "send_message net cfg text tr
           = (tr @ [publish_request cfg text,
                    Print (SendFailed (HTTPError (status_code r)) (body_text r))], Inr ())"
  using assms by (simp add: send_message_def publish_request_def raise_for_status_def)


lemma send_confirmation_no_publish:
  "filter is_publish (fst (send_confirmation net cfg message tr)) = filter is_publish tr"
  by (simp add: send_confirmation_def Let_def split: json.split reply.split)




text \<open>
  C4. When the channel answers the publication with a status from 400 to 599,
  \<^verbatim>\<open>send_message\<close> logs the error and the raw body and returns normally. The loop then
  goes on with the confirmation and the cursor as after a successful publication, and the
  update has caused exactly one publication request.
\<close>

theorem publish_failure_logged:
  assumes "net (tr @ [publish_request cfg forward_text]) = Responds r"
    and "400 \<le> status_code r" "status_code r < 600"
  shows "send_message net cfg forward_text tr
           = (tr @ [publish_request cfg forward_text,
                    Print (SendFailed (HTTPError (status_code r)) (body_text r))], Inr ())
       \<and> (get_message update = Some message \<and> message \<noteq> []
            \<and> build_forward_text py message = Inr forward_text \<longrightarrow>
            process_update py net cfg offset update tr
              = (case send_confirmation net cfg message
                        (tr @ [publish_request cfg forward_text,
                               Print (SendFailed (HTTPError (status_code r)) (body_text r))]) of
                   (tr2, Inl e) \<Rightarrow> (tr2, Inl e)
                 | (tr2, Inr u) \<Rightarrow>
                     (tr2, Inr (case get_update_id update of
                                  Some n \<Rightarrow> Some (n + 1) | None \<Rightarrow> offset)))
            \<and> length (filter is_publish (fst (process_update py net cfg offset update tr)))
                = length (filter is_publish tr) + 1)"
proof (intro conjI impI)
  let ?tr1 = "tr @ [publish_request cfg forward_text,
                    Print (SendFailed (HTTPError (status_code r)) (body_text r))]"
  show sm: "send_message net cfg forward_text tr = (?tr1, Inr ())"
    using assms by (rule send_message_failure)
  assume h: "get_message update = Some message \<and> message \<noteq> []
            \<and> build_forward_text py message = Inr forward_text"
  obtain tr2 res where sc: "send_confirmation net cfg message ?tr1 = (tr2, res)"
    by (cases "send_confirmation net cfg message ?tr1")
  show pu: "process_update py net cfg offset update tr
              = (case send_confirmation net cfg message ?tr1 of
                   (tr2, Inl e) \<Rightarrow> (tr2, Inl e)
                 | (tr2, Inr u) \<Rightarrow>
                     (tr2, Inr (case get_update_id update of
                                  Some n \<Rightarrow> Some (n + 1) | None \<Rightarrow> offset)))"
    using h sm by (simp add: process_update_def split: prod.split sum.split)
  have "fst (process_update py net cfg offset update tr) = tr2"
    unfolding pu sc by (cases res) simp_all
  moreover have "filter is_publish tr2 = filter is_publish ?tr1"
    using send_confirmation_no_publish [of net cfg message ?tr1] sc by simp
  ultimately show "length (filter is_publish (fst (process_update py net cfg offset update tr)))
                = length (filter is_publish tr) + 1"
    by (simp add: publish_is_publish)
qed

theorem publish_failure_logged_witness:
  "send_message (net_status 403) sample_config ''hi'' []
     = ([publish_request sample_config ''hi'', Print (SendFailed (HTTPError 403) ''body'')], Inr ())
   \<and> process_update sample_python (net_status 403) sample_config None
        \<lparr>get_update_id = Some 5, get_message = Some [(''note'', JStr ''hi'')]\<rparr> []
       = ([publish_request sample_config EMPTY_MESSAGE,
           Print (SendFailed (HTTPError 403) ''body'')], Inr (Some 6))"
  using publish_failure_logged [where net = "net_status 403" and tr = "[]" and cfg = sample_config
      and forward_text = "''hi''" and r = "\<lparr>status_code = 403, body_text = ''body'', body_json = None\<rparr>"]
    publish_failure_logged [where net = "net_status 403" and tr = "[]" and cfg = sample_config
      and forward_text = EMPTY_MESSAGE
      and r = "\<lparr>status_code = 403, body_text = ''body'', body_json = None\<rparr>"
      and update = "\<lparr>get_update_id = Some 5, get_message = Some [(''note'', JStr ''hi'')]\<rparr>"
      and message = "[(''note'', JStr ''hi'')]" and py = sample_python and offset = None]
  by (simp add: net_status_def build_forward_text_def py_or_def dget_def
        send_confirmation_def dget_default_def)



subsection \<open>The cursor\<close>

text \<open>
  On the path of an update with a message, a missing \<^verbatim>\<open>update_id\<close> leaves the cursor
  as it was.
\<close>

lemma message_path_keeps_cursor:
  assumes "get_message update = Some message" "message \<noteq> []" "get_update_id update = None"
    and "snd (process_update py net cfg offset update tr) = Inr offset1"
  shows "offset1 = offset"
  using assms
  by (simp add: process_update_def split: sum.splits prod.splits)

text \<open>
  C1 at the failing input. With the cursor at 13, an update with no \<^verbatim>\<open>message\<close> and no
  \<^verbatim>\<open>update_id\<close> sets the cursor to \<^verbatim>\<open>None\<close>: the next fetch omits the offset.
  So does a batch that ends with such an update, whatever the cursor reached before it.
\<close>

theorem cursor_reset_without_update_id:
  "process_update py net cfg (Some 13) \<lparr>get_update_id = None, get_message = None\<rparr> tr
     = (tr, Inr None)
   \<and> process_updates py net cfg (Some 10)
        [\<lparr>get_update_id = Some 12, get_message = None\<rparr>,
         \<lparr>get_update_id = None, get_message = None\<rparr>] tr
       = (tr, Inr None)"
  by (simp add: process_update_def)

subsection \<open>Startup\<close>

text \<open>
  C7. When \<^verbatim>\<open>BOT_TOKEN\<close> or \<^verbatim>\<open>CHANNEL_ID\<close> is unset, empty or its placeholder,
  the process ends with an uncaught \<^verbatim>\<open>RuntimeError\<close> that names the variable, before
  the first line is printed and the first request is sent. Every other configuration
  passes: \<^verbatim>\<open>main\<close> is then the polling loop, started with no cursor. (In
  \<^verbatim>\<open>telegram_bot_chertkovsky_filled.py\<close> the two values are constants of the file and
  \<open>main_filled\<close> is the polling loop for them.)
\<close>

theorem startup_validation:
  "MSG_NO_BOT_TOKEN \<noteq> [] \<and> MSG_NO_CHANNEL_ID \<noteq> []
   \<and> (env ''BOT_TOKEN'' = None \<or> env ''BOT_TOKEN'' = Some []
        \<or> env ''BOT_TOKEN'' = Some ''YOUR_BOT_TOKEN_HERE'' \<longrightarrow>
        script py net env fuel = ([], Crashed (RuntimeError MSG_NO_BOT_TOKEN)))
   \<and> (env ''BOT_TOKEN'' = Some t \<and> t \<noteq> [] \<and> t \<noteq> ''YOUR_BOT_TOKEN_HERE''
        \<and> (env ''CHANNEL_ID'' = None \<or> env ''CHANNEL_ID'' = Some []
            \<or> env ''CHANNEL_ID'' = Some ''YOUR_CHANNEL_ID_HERE'') \<longrightarrow>
        script py net env fuel = ([], Crashed (RuntimeError MSG_NO_CHANNEL_ID)))
   \<and> (env ''BOT_TOKEN'' = Some t \<and> t \<noteq> [] \<and> t \<noteq> ''YOUR_BOT_TOKEN_HERE''
        \<and> env ''CHANNEL_ID'' = Some c \<and> c \<noteq> [] \<and> c \<noteq> ''YOUR_CHANNEL_ID_HERE'' \<longrightarrow>
        main py net (load_config env) fuel
          = main_loop py net \<lparr>BOT_TOKEN = t, CHANNEL_ID = c\<rparr> fuel None [Print Starting])"
proof (intro conjI impI)
  show "MSG_NO_BOT_TOKEN \<noteq> []" by (simp add: MSG_NO_BOT_TOKEN_def)
  show "MSG_NO_CHANNEL_ID \<noteq> []" by (simp add: MSG_NO_CHANNEL_ID_def)
next
  assume "env ''BOT_TOKEN'' = None \<or> env ''BOT_TOKEN'' = Some []
        \<or> env ''BOT_TOKEN'' = Some ''YOUR_BOT_TOKEN_HERE''"
  then have "BOT_TOKEN (load_config env) = [] \<or> BOT_TOKEN (load_config env) = ''YOUR_BOT_TOKEN_HERE''"
    by (elim disjE) (simp_all add: load_config_def)
  then show "script py net env fuel = ([], Crashed (RuntimeError MSG_NO_BOT_TOKEN))"
    by (simp add: script_def main_def)
next
  assume h: "env ''BOT_TOKEN'' = Some t \<and> t \<noteq> [] \<and> t \<noteq> ''YOUR_BOT_TOKEN_HERE''
        \<and> (env ''CHANNEL_ID'' = None \<or> env ''CHANNEL_ID'' = Some []
            \<or> env ''CHANNEL_ID'' = Some ''YOUR_CHANNEL_ID_HERE'')"
  then have tok: "BOT_TOKEN (load_config env) = t" by (simp add: load_config_def)
  from h have "CHANNEL_ID (load_config env) = []
       \<or> CHANNEL_ID (load_config env) = ''YOUR_CHANNEL_ID_HERE''"
    by (elim conjE disjE) (simp_all add: load_config_def)
  with h tok show "script py net env fuel = ([], Crashed (RuntimeError MSG_NO_CHANNEL_ID))"
    by (simp add: script_def main_def)
next
  assume h: "env ''BOT_TOKEN'' = Some t \<and> t \<noteq> [] \<and> t \<noteq> ''YOUR_BOT_TOKEN_HERE''
        \<and> env ''CHANNEL_ID'' = Some c \<and> c \<noteq> [] \<and> c \<noteq> ''YOUR_CHANNEL_ID_HERE''"
  then have "load_config env = \<lparr>BOT_TOKEN = t, CHANNEL_ID = c\<rparr>"
    by (simp add: load_config_def)
  with h show "main py net (load_config env) fuel
          = main_loop py net \<lparr>BOT_TOKEN = t, CHANNEL_ID = c\<rparr> fuel None [Print Starting]"
    by (simp add: main_def)
qed

theorem startup_validation_witness:
  "script sample_python net_down Map.empty 3 = ([], Crashed (RuntimeError MSG_NO_BOT_TOKEN))
   \<and> script sample_python net_down [''BOT_TOKEN'' \<mapsto> ''123:ABC''] 3
       = ([], Crashed (RuntimeError MSG_NO_CHANNEL_ID))
   \<and> main sample_python net_down
        (load_config [''BOT_TOKEN'' \<mapsto> ''123:ABC'', ''CHANNEL_ID'' \<mapsto> ''@my_channel'']) 3
       = main_loop sample_python net_down sample_config 3 None [Print Starting]"
  using startup_validation [where env = Map.empty and py = sample_python and net = net_down
      and fuel = 3]
    startup_validation [where env = "[''BOT_TOKEN'' \<mapsto> ''123:ABC'']" and t = "''123:ABC''"
      and py = sample_python and net = net_down and fuel = 3]
    startup_validation [where
      env = "[''BOT_TOKEN'' \<mapsto> ''123:ABC'', ''CHANNEL_ID'' \<mapsto> ''@my_channel'']"
      and t = "''123:ABC''" and c = "''@my_channel''"
      and py = sample_python and net = net_down and fuel = 3]
  by (simp add: sample_config_def)

end
